theory Spec2Isabelle
  imports Complex_Main "HOL-Library.Sublist"
begin

section \<open>Road search: corridor, search envelope, candidate filter, deduplication\<close>

text \<open>
  A shallow embedding of \<^verbatim>\<open>jmc_rev_roadsearch.py\<close>. Python floats are idealised as
  real numbers (NaN, infinities and rounding of single operations are outside the model).
  The calls into the network and into the geometry libraries are parameters of the
  model; printing and sleeping are left out.
\<close>

subsection \<open>Search envelope\<close>

text \<open>
  A bounding box as the code writes it: \<^verbatim>\<open>geom.bounds\<close> is
  \<open>(minx, miny, maxx, maxy)\<close>, the envelope returned by \<^verbatim>\<open>global_area\<close> is
  \<open>(south, west, north, east)\<close>. The geometry enters \<^verbatim>\<open>global_area\<close> only through
  its \<^verbatim>\<open>bounds\<close>, which is the first argument here.
\<close>

type_synonym bbox = "real \<times> real \<times> real \<times> real"

fun global_area :: "bbox \<Rightarrow> real \<Rightarrow> bbox" where
  "global_area (minx, miny, maxx, maxy) expand_factor =
     (let dx = maxx - minx;
          dy = maxy - miny;
          padx = dx * expand_factor + 1 / 100;
          pady = dy * expand_factor + 1 / 100
      in (miny - pady, minx - padx, maxy + pady, maxx + padx))"

text \<open>Area of an envelope \<open>(south, west, north, east)\<close>, and membership of a point
  \<open>(lon, lat)\<close> in it.\<close>

fun envelope_area :: "bbox \<Rightarrow> real" where
  "envelope_area (s, w, n, e) = (n - s) * (e - w)"

fun in_envelope :: "bbox \<Rightarrow> real \<times> real \<Rightarrow> bool" where
  "in_envelope (s, w, n, e) (lon, lat) = (s \<le> lat \<and> lat \<le> n \<and> w \<le> lon \<and> lon \<le> e)"

subsection \<open>Values, errors and collaborators\<close>

text \<open>
  The exceptions the code can end with: Python's own, raised by the code or by a built-in,
  and \<open>LibraryError\<close> for an exception raised inside a call of \<^verbatim>\<open>shapely\<close>,
  \<^verbatim>\<open>pyproj\<close> or \<^verbatim>\<open>requests\<close>. The source defines no exception class of its own.
\<close>

datatype error = IndexError | KeyError string | TypeError | ValueError string | LibraryError string

text \<open>A value stored in a result dictionary: a string, a number or \<^verbatim>\<open>None\<close>.\<close>

datatype pyval = Str string | Num real | PyNone

text \<open>A dictionary with string keys, in insertion order (the order \<^verbatim>\<open>json.dump\<close> writes).\<close>

type_synonym 'v pydict = "(string \<times> 'v) list"

definition get :: "'v pydict \<Rightarrow> string \<Rightarrow> 'v option" where
  "get d k = map_of d k"

definition getitem :: "'v pydict \<Rightarrow> string \<Rightarrow> error + 'v" where
  "getitem d k = (case map_of d k of None \<Rightarrow> Inl (KeyError k) | Some v \<Rightarrow> Inr v)"

definition keys :: "'v pydict \<Rightarrow> string list" where
  "keys d = map fst d"

text \<open>
  \<^verbatim>\<open>a or b\<close> on optional strings: \<^verbatim>\<open>None\<close> and the empty string are falsy, and the
  result is \<open>a\<close> when it is truthy, else \<open>b\<close>.
\<close>

fun truthy :: "string option \<Rightarrow> bool" where
  "truthy None = False"
| "truthy (Some s) = (s \<noteq> [])"

definition py_or :: "string option \<Rightarrow> string option \<Rightarrow> string option" where
  "py_or a b = (if truthy a then a else b)"

text \<open>\<^verbatim>\<open>a or d\<close> where \<open>d\<close> is a string: always a string.\<close>

fun or_str :: "string option \<Rightarrow> string \<Rightarrow> string" where
  "or_str None d = d"
| "or_str (Some s) d = (if s \<noteq> [] then s else d)"

text \<open>\<^verbatim>\<open>int(x)\<close> truncates toward zero.\<close>

definition py_int :: "real \<Rightarrow> int" where
  "py_int x = (if 0 \<le> x then \<lfloor>x\<rfloor> else \<lceil>x\<rceil>)"

text \<open>
  \<^verbatim>\<open>round(x, n)\<close>: the nearest multiple of \<open>10 ^ (- n)\<close>, a tie going to the even
  digit.
\<close>

definition round_half_even :: "real \<Rightarrow> int" where
  "round_half_even x =
     (let f = \<lfloor>x\<rfloor>; d = x - of_int f
      in if d < 1 / 2 then f else if 1 / 2 < d then f + 1 else if even f then f else f + 1)"

definition py_round :: "real \<Rightarrow> nat \<Rightarrow> real" where
  "py_round x n = of_int (round_half_even (x * 10 ^ n)) / 10 ^ n"

text \<open>
  A coordinate reference system as \<^verbatim>\<open>create_buffer\<close> names it: \<^verbatim>\<open>"EPSG:4326"\<close>, or
  the UTM zone of \<^verbatim>\<open>+proj=utm +zone=Z +datum=WGS84 +units=m +no_defs\<close>.
\<close>

datatype crs = EPSG4326 | UTM int

text \<open>
  An element of the place lookup's answer, with the entries \<^verbatim>\<open>chosen_area\<close> reads:
  \<^verbatim>\<open>elem["type"]\<close>, and \<^verbatim>\<open>elem.get\<close> of \<^verbatim>\<open>lat\<close>, \<^verbatim>\<open>lon\<close>, \<^verbatim>\<open>center\<close>
  and \<^verbatim>\<open>tags\<close> (\<open>None\<close> when the key is absent).
\<close>

record element =
  etype :: string
  lat :: "real option"
  lon :: "real option"
  center :: "real pydict option"
  tags :: "string pydict option"

text \<open>The dictionary \<^verbatim>\<open>chosen_area\<close> returns.\<close>

record place =
  placename :: string
  placename_ascii :: string
  placename_en :: string
  placetag :: string
  latitude :: "real option"
  longitude :: "real option"

text \<open>
  The collaborators, with \<open>'g\<close> the library's geometries and \<open>'t\<close> its coordinate
  transformers:
  \<^item> \<open>line_string\<close> is \<^verbatim>\<open>LineString(gpsx)\<close>;
  \<^item> \<open>transformer a b\<close> is \<^verbatim>\<open>Transformer.from_crs(a, b, always_xy=True).transform\<close>
    (with \<^verbatim>\<open>CRS.from_proj4\<close> for the UTM system);
  \<^item> \<open>transform t g\<close> is \<^verbatim>\<open>shapely.ops.transform(t, g)\<close>;
  \<^item> \<open>buffer g r\<close> is \<^verbatim>\<open>g.buffer(r)\<close>, \<open>bounds g\<close> is \<^verbatim>\<open>g.bounds\<close>;
  \<^item> \<open>point_within x y g\<close> is \<^verbatim>\<open>Point(x, y).within(g)\<close>;
  \<^item> \<open>nominatim_search q\<close> is the place search of \<^verbatim>\<open>set_city\<close>: the first result's
    \<open>(lat, lon)\<close>, or \<open>None\<close> for a status other than 200 or an empty answer;
  \<^item> \<open>find_roadway\<close> and \<open>search_zone\<close> are the two Overpass queries;
  \<^item> \<open>reverse_geocode lat lon\<close> is the \<^verbatim>\<open>address\<close> entry of the reverse geocoder's
    answer, \<open>None\<close> when the answer has none (as the \<^verbatim>\<open>{}\<close> of a status other than
    200).
\<close>

record ('g, 't) world =
  line_string :: "(real \<times> real) list \<Rightarrow> error + 'g"
  transformer :: "crs \<Rightarrow> crs \<Rightarrow> error + 't"
  transform :: "'t \<Rightarrow> 'g \<Rightarrow> error + 'g"
  buffer :: "'g \<Rightarrow> real \<Rightarrow> error + 'g"
  bounds :: "'g \<Rightarrow> bbox"
  point_within :: "real option \<Rightarrow> real option \<Rightarrow> 'g \<Rightarrow> error + bool"
  nominatim_search :: "string \<Rightarrow> error + (real \<times> real) option"
  find_roadway :: "string \<Rightarrow> bbox \<Rightarrow> error + (real \<times> real) list"
  search_zone :: "bbox \<Rightarrow> error + element list"
  reverse_geocode :: "real option \<Rightarrow> real option \<Rightarrow> error + string pydict option"

subsection \<open>Corridor\<close>

definition create_buffer ::
  "('g, 't) world \<Rightarrow> (real \<times> real) list \<Rightarrow> real \<Rightarrow> error + 'g" where
  "create_buffer W gpsx buffer_m =
     (case line_string W gpsx of Inl e \<Rightarrow> Inl e | Inr seg \<Rightarrow>
      case gpsx of [] \<Rightarrow> Inl IndexError | p0 # _ \<Rightarrow>
      let utm_zone = py_int ((fst p0 + 180) / 6) + 1;
          utm_crs = UTM utm_zone
      in case transformer W EPSG4326 utm_crs of Inl e \<Rightarrow> Inl e | Inr trans_to_utm \<Rightarrow>
         case transformer W utm_crs EPSG4326 of Inl e \<Rightarrow> Inl e | Inr trans_to_wgs \<Rightarrow>
         case transform W trans_to_utm seg of Inl e \<Rightarrow> Inl e | Inr seg_m \<Rightarrow>
         case buffer W seg_m buffer_m of Inl e \<Rightarrow> Inl e | Inr buff_mpoly \<Rightarrow>
         transform W trans_to_wgs buff_mpoly)"

subsection \<open>Candidates\<close>

definition chosen_area :: "element \<Rightarrow> place option" where
  "chosen_area elem =
     (let pos =
        (if etype elem = ''node'' then Some (lat elem, lon elem)
         else case center elem of
                None \<Rightarrow> None
              | Some c \<Rightarrow> if c \<noteq> [] then Some (get c ''lat'', get c ''lon'') else None)
      in case pos of
           None \<Rightarrow> None
         | Some (la, lo) \<Rightarrow>
             let tg = (case tags elem of None \<Rightarrow> [] | Some t \<Rightarrow> t);
                 name = or_str (py_or (get tg ''name'') (get tg ''name:en'')) [];
                 name_ascii = or_str (get tg ''name:ascii'') name;
                 name_en = or_str (get tg ''name:en'') name;
                 place_tag = (case get tg ''place'' of None \<Rightarrow> ''town'' | Some v \<Rightarrow> v)
             in Some \<lparr>placename = name, placename_ascii = name_ascii, placename_en = name_en,
                      placetag = place_tag, latitude = la, longitude = lo\<rparr>)"

definition set_state_country ::
  "('g, 't) world \<Rightarrow> real option \<Rightarrow> real option \<Rightarrow> error + (string option \<times> string option)" where
  "set_state_country W la lo =
     (case reverse_geocode W la lo of Inl e \<Rightarrow> Inl e | Inr r \<Rightarrow>
      let addr = (case r of None \<Rightarrow> [] | Some a \<Rightarrow> a);
          state = py_or (py_or (get addr ''state'') (get addr ''province''))
                        (get addr ''state_district'');
          country = get addr ''country''
      in Inr (state, country))"

definition set_city :: "('g, 't) world \<Rightarrow> string \<Rightarrow> string \<Rightarrow> error + bbox" where
  "set_city W city state =
     (case nominatim_search W (city @ '', '' @ state @ '', USA'') of
        Inl e \<Rightarrow> Inl e
      | Inr None \<Rightarrow> Inl (ValueError (''Location not found: '' @ city @ '', '' @ state))
      | Inr (Some (la, lo)) \<Rightarrow>
          let bbox_size = 45 / 100
          in Inr (la - bbox_size, lo - bbox_size, la + bbox_size, lo + bbox_size))"

subsection \<open>The search\<close>

fun num :: "real option \<Rightarrow> pyval" where
  "num None = PyNone"
| "num (Some x) = Num x"

text \<open>The dictionary literal of the loop in \<^verbatim>\<open>road_search\<close>.\<close>

definition result_dict ::
  "string \<Rightarrow> place \<Rightarrow> string option \<Rightarrow> string option \<Rightarrow> pyval pydict" where
  "result_dict roadway_name pl state country =
     [(''roadway'', Str roadway_name),
      (''placename'', Str (placename pl)),
      (''placename_ascii'', Str (placename_ascii pl)),
      (''placename_en'', Str (placename_en pl)),
      (''placetag'', Str (placetag pl)),
      (''latitude'', num (latitude pl)),
      (''longitude'', num (longitude pl)),
      (''state/province'', Str (or_str state [])),
      (''state/province-ascii'', Str (or_str state [])),
      (''country'', Str (or_str country []))]"

text \<open>The loop over the elements, \<open>results\<close> being the list built so far.\<close>

fun collect ::
  "('g, 't) world \<Rightarrow> string \<Rightarrow> 'g \<Rightarrow> element list \<Rightarrow> pyval pydict list
     \<Rightarrow> error + pyval pydict list" where
  "collect W roadway_name buff_geom [] results = Inr results"
| "collect W roadway_name buff_geom (e # es) results =
     (case chosen_area e of
        None \<Rightarrow> collect W roadway_name buff_geom es results
      | Some pl \<Rightarrow>
          (case point_within W (longitude pl) (latitude pl) buff_geom of
             Inl err \<Rightarrow> Inl err
           | Inr ok \<Rightarrow>
               if \<not> ok then collect W roadway_name buff_geom es results
               else (case set_state_country W (latitude pl) (longitude pl) of
                       Inl err \<Rightarrow> Inl err
                     | Inr (state, country) \<Rightarrow>
                         collect W roadway_name buff_geom es
                           (results @ [result_dict roadway_name pl state country]))))"

text \<open>
  The deduplication loop. \<^verbatim>\<open>float\<close> of a number is the number and of \<^verbatim>\<open>None\<close> a
  TypeError; of a string it is the number the string spells or a ValueError, and as the
  loop above stores no string under \<^verbatim>\<open>latitude\<close> or \<^verbatim>\<open>longitude\<close> the model has the
  ValueError only.
\<close>

fun py_float :: "pyval \<Rightarrow> error + real" where
  "py_float (Num x) = Inr x"
| "py_float PyNone = Inl TypeError"
| "py_float (Str s) = Inl (ValueError s)"

type_synonym dedupe_key = "pyval \<times> real \<times> real"

definition record_key :: "pyval pydict \<Rightarrow> error + dedupe_key" where
  "record_key r =
     (case getitem r ''placename'' of Inl e \<Rightarrow> Inl e | Inr name \<Rightarrow>
      case getitem r ''latitude'' of Inl e \<Rightarrow> Inl e | Inr la \<Rightarrow>
      case py_float la of Inl e \<Rightarrow> Inl e | Inr x \<Rightarrow>
      case getitem r ''longitude'' of Inl e \<Rightarrow> Inl e | Inr lo \<Rightarrow>
      case py_float lo of Inl e \<Rightarrow> Inl e | Inr y \<Rightarrow>
      Inr (name, py_round x 6, py_round y 6))"

fun dedupe_loop ::
  "dedupe_key set \<Rightarrow> pyval pydict list \<Rightarrow> pyval pydict list \<Rightarrow> error + pyval pydict list" where
  "dedupe_loop found deduped [] = Inr deduped"
| "dedupe_loop found deduped (r # rs) =
     (case record_key r of
        Inl e \<Rightarrow> Inl e
      | Inr key \<Rightarrow>
          if key \<in> found then dedupe_loop found deduped rs
          else dedupe_loop (insert key found) (deduped @ [r]) rs)"

definition dedupe :: "pyval pydict list \<Rightarrow> error + pyval pydict list" where
  "dedupe results = dedupe_loop {} [] results"

definition road_search ::
  "('g, 't) world \<Rightarrow> string \<Rightarrow> string \<Rightarrow> string \<Rightarrow> real \<Rightarrow> error + pyval pydict list" where
  "road_search W roadway_name city state buffer_m =
     (case set_city W city state of Inl e \<Rightarrow> Inl e | Inr bbox \<Rightarrow>
      case find_roadway W roadway_name bbox of Inl e \<Rightarrow> Inl e | Inr gpsx \<Rightarrow>
      if gpsx = [] then Inl (ValueError (''No locaton found: '' @ roadway_name))
      else case create_buffer W gpsx buffer_m of Inl e \<Rightarrow> Inl e | Inr buff_geom \<Rightarrow>
           let bbox_search = global_area (bounds W buff_geom) (2 / 100)
           in case search_zone W bbox_search of Inl e \<Rightarrow> Inl e | Inr elements \<Rightarrow>
              case collect W roadway_name buff_geom elements [] of
                Inl e \<Rightarrow> Inl e
              | Inr results \<Rightarrow> dedupe results)"

subsection \<open>First occurrences\<close>

text \<open>
  What the specification asks of the deduplication, in its own words: of the records
  bearing one key, the first is kept and the later ones are dropped, in the order of the
  input. Record \<open>i\<close> is kept exactly when no record before it bears its key.
\<close>

definition first_occurrences :: "('a \<Rightarrow> 'k) \<Rightarrow> 'a list \<Rightarrow> 'a list" where
  "first_occurrences k rs =
     map (\<lambda>i. rs ! i) (filter (\<lambda>i. \<forall>j<i. k (rs ! j) \<noteq> k (rs ! i)) [0..<length rs])"

text \<open>
  Rounding to \<open>n\<close> decimal places, as a specification: \<open>c\<close> is \<open>x\<close> rounded when
  \<open>c\<close> is a multiple of \<open>10 ^ (- n)\<close> at distance at most half a unit from \<open>x\<close>, the
  even multiple when \<open>x\<close> lies halfway between two.
\<close>

definition rounded_to :: "nat \<Rightarrow> real \<Rightarrow> real \<Rightarrow> bool" where
  "rounded_to n x c =
     (let m = \<lfloor>c * 10 ^ n\<rfloor>
      in c * 10 ^ n = of_int m \<and> \<bar>x * 10 ^ n - of_int m\<bar> \<le> 1 / 2
         \<and> (\<bar>x * 10 ^ n - of_int m\<bar> = 1 / 2 \<longrightarrow> even m))"

text \<open>The key the loop computes for a record (a fixed value for a record that has none).\<close>

definition placement_key :: "pyval pydict \<Rightarrow> dedupe_key" where
  "placement_key r = (case record_key r of Inr key \<Rightarrow> key | Inl e \<Rightarrow> (PyNone, 0, 0))"

subsection \<open>A scripted run\<close>

text \<open>
  Collaborators with fixed answers, for running the model on concrete inputs. The
  geometry operations only record the calls the code makes (no geometry is computed);
  the envelope and the acceptance test are those of a fixed box around the trace from
  \<open>(-80.19, 25.76)\<close> to \<open>(-80.20, 25.80)\<close>; the place lookup answers with five elements:
  a city node, the same city again as a relation with a centre 0.0000004 degrees away, a
  node without a \<^verbatim>\<open>place\<close> tag, a town some 30 km to the west, and a way without a
  centre.
\<close>

datatype geom = Line "(real \<times> real) list" | Transformed crs crs geom | Buffered geom real

definition scenario_elements :: "element list" where
  "scenario_elements =
     [\<lparr>etype = ''node'', lat = Some (25774200 / 1000000), lon = Some (- 80193900 / 1000000),
        center = None,
        tags = Some [(''name'', ''Miami''), (''place'', ''city'')]\<rparr>,
      \<lparr>etype = ''relation'', lat = None, lon = None,
        center = Some [(''lat'', 257742004 / 10000000), (''lon'', - 80193900 / 1000000)],
        tags = Some [(''name'', ''Miami''), (''name:en'', ''Miami, FL''), (''place'', ''city'')]\<rparr>,
      \<lparr>etype = ''node'', lat = Some (2578 / 100), lon = Some (- 80195 / 1000),
        center = None,
        tags = Some [(''name:en'', ''Allapattah'')]\<rparr>,
      \<lparr>etype = ''node'', lat = Some (2578 / 100), lon = Some (- 8050 / 100),
        center = None,
        tags = Some [(''name'', ''Sweetwater''), (''place'', ''town'')]\<rparr>,
      \<lparr>etype = ''way'', lat = None, lon = None, center = None,
        tags = Some [(''name'', ''Hialeah''), (''place'', ''city'')]\<rparr>]"

definition scenario_world :: "(geom, crs \<times> crs) world" where
  "scenario_world =
     \<lparr>line_string = (\<lambda>pts. Inr (Line pts)),
      transformer = (\<lambda>a b. Inr (a, b)),
      transform = (\<lambda>t g. Inr (Transformed (fst t) (snd t) g)),
      buffer = (\<lambda>g r. Inr (Buffered g r)),
      bounds = (\<lambda>g. (- 80205 / 1000, 25755 / 1000, - 80185 / 1000, 25805 / 1000)),
      point_within = (\<lambda>x y g. case (x, y) of
          (Some lo, Some la) \<Rightarrow>
            Inr (- 80205 / 1000 < lo \<and> lo < - 80185 / 1000 \<and> 25755 / 1000 < la \<and> la < 25805 / 1000)
        | _ \<Rightarrow> Inl TypeError),
      nominatim_search = (\<lambda>q. Inr (Some (257617 / 10000, - 801918 / 10000))),
      find_roadway = (\<lambda>name bbox. Inr [(- 8019 / 100, 2576 / 100), (- 8020 / 100, 2580 / 100)]),
      search_zone = (\<lambda>bbox. Inr scenario_elements),
      reverse_geocode = (\<lambda>la lo. Inr (Some [(''state'', ''Florida''), (''country'', ''United States'')]))\<rparr>"

section \<open>Search envelope: properties\<close>

lemma global_area_extent:
  "global_area (minx, miny, maxx, maxy) f =
     (miny - ((maxy - miny) * f + 1 / 100), minx - ((maxx - minx) * f + 1 / 100),
      maxy + ((maxy - miny) * f + 1 / 100), maxx + ((maxx - minx) * f + 1 / 100))"
  by (simp add: Let_def)

lemma envelope_area_global_area:
  "envelope_area (global_area (minx, miny, maxx, maxy) f) =
     ((maxy - miny) * (1 + 2 * f) + 2 / 100) * ((maxx - minx) * (1 + 2 * f) + 2 / 100)"
  by (simp add: Let_def algebra_simps)

text \<open>
  C9. For bounds with \<open>minx \<le> maxx\<close> and \<open>miny \<le> maxy\<close> and a non-negative expansion
  factor, \<open>global_area\<close> pads each side by \<open>factor * extent + 0.01\<close>; every point of
  the bounding box (hence of the corridor) lies in the envelope, and the envelope has
  strictly positive extent in both dimensions, also when the bounding box is a single
  point.
\<close>

theorem global_area_contains_corridor:
  assumes "minx \<le> maxx" and "miny \<le> maxy" and "0 \<le> f"
  shows "global_area (minx, miny, maxx, maxy) f =
           (miny - ((maxy - miny) * f + 1 / 100), minx - ((maxx - minx) * f + 1 / 100),
            maxy + ((maxy - miny) * f + 1 / 100), maxx + ((maxx - minx) * f + 1 / 100))
         \<and> (\<forall>lon lat. minx \<le> lon \<and> lon \<le> maxx \<and> miny \<le> lat \<and> lat \<le> maxy \<longrightarrow>
               in_envelope (global_area (minx, miny, maxx, maxy) f) (lon, lat))
         \<and> (case global_area (minx, miny, maxx, maxy) f of (s, w, n, e) \<Rightarrow> s < n \<and> w < e)"
proof -
  define padx where "padx = (maxx - minx) * f + 1 / 100"
  define pady where "pady = (maxy - miny) * f + 1 / 100"
  have "0 \<le> (maxx - minx) * f" and "0 \<le> (maxy - miny) * f"
    using assms by simp_all
  then have px: "0 < padx" and py: "0 < pady"
    by (simp_all add: padx_def pady_def)
  have ga: "global_area (minx, miny, maxx, maxy) f =
      (miny - pady, minx - padx, maxy + pady, maxx + padx)"
    by (simp only: global_area_extent padx_def pady_def)
  have box: "in_envelope (global_area (minx, miny, maxx, maxy) f) (lon, lat)"
    if "minx \<le> lon \<and> lon \<le> maxx \<and> miny \<le> lat \<and> lat \<le> maxy" for lon lat
    unfolding ga using that px py by simp
  have pos: "case global_area (minx, miny, maxx, maxy) f of (s, w, n, e) \<Rightarrow> s < n \<and> w < e"
    unfolding ga using assms(1,2) px py by simp
  show ?thesis using box pos global_area_extent by blast
qed

theorem global_area_contains_corridor_witness:
  "global_area (5, 7, 5, 7) 0 = (699 / 100, 499 / 100, 701 / 100, 501 / 100)
   \<and> in_envelope (global_area (5, 7, 5, 7) 0) (5, 7)"
  using global_area_contains_corridor [of 5 5 7 7 0] by simp

text \<open>
  C8. The claim, that the envelope's area strictly increases with the expansion factor
  for every geometry, fails for a geometry of zero extent (the envelope is the fixed pad
  around the point whatever the factor) and, the factor not being checked, for negative
  factors (the padded sides turn negative and the area decreases). What holds: for bounds
  with \<open>minx \<le> maxx\<close> and \<open>miny \<le> maxy\<close> and factors \<open>- 1/2 \<le> f1 \<le> f2\<close> the area
  at \<open>f1\<close> is at most the area at \<open>f2\<close>; and for a single point the envelope is the
  point padded by 0.01 on each side, of area 0.0004, for every factor. No strict increase
  is stated: it would hold of the real numbers only, not of the floats of the code.
\<close>

theorem global_area_monotone:
  "(minx \<le> maxx \<and> miny \<le> maxy \<and> - 1 / 2 \<le> f1 \<and> f1 \<le> f2 \<longrightarrow>
      envelope_area (global_area (minx, miny, maxx, maxy) f1)
        \<le> envelope_area (global_area (minx, miny, maxx, maxy) f2))
   \<and> global_area (x, y, x, y) f = (y - 1 / 100, x - 1 / 100, y + 1 / 100, x + 1 / 100)
   \<and> envelope_area (global_area (x, y, x, y) f) = 4 / 10000"
proof -
  have le: "envelope_area (global_area (minx, miny, maxx, maxy) f1)
        \<le> envelope_area (global_area (minx, miny, maxx, maxy) f2)"
    if h: "minx \<le> maxx \<and> miny \<le> maxy \<and> - 1 / 2 \<le> f1 \<and> f1 \<le> f2"
  proof -
    define h1 where "h1 = (maxy - miny) * (1 + 2 * f1) + 2 / 100"
    define h2 where "h2 = (maxy - miny) * (1 + 2 * f2) + 2 / 100"
    define w1 where "w1 = (maxx - minx) * (1 + 2 * f1) + 2 / 100"
    define w2 where "w2 = (maxx - minx) * (1 + 2 * f2) + 2 / 100"
    have a1: "envelope_area (global_area (minx, miny, maxx, maxy) f1) = h1 * w1"
      by (simp only: envelope_area_global_area h1_def w1_def)
    have a2: "envelope_area (global_area (minx, miny, maxx, maxy) f2) = h2 * w2"
      by (simp only: envelope_area_global_area h2_def w2_def)
    have s1: "0 \<le> 1 + 2 * f1" and s2: "1 + 2 * f1 \<le> 1 + 2 * f2"
      using h by simp_all
    have dy: "0 \<le> maxy - miny" and dx: "0 \<le> maxx - minx"
      using h by simp_all
    have h1pos: "0 < h1" using dy s1 by (simp add: h1_def add_nonneg_pos)
    have w1pos: "0 < w1" using dx s1 by (simp add: w1_def add_nonneg_pos)
    have hle: "h1 \<le> h2" using dy s2 unfolding h1_def h2_def
      by (simp add: mult_left_mono)
    have wle: "w1 \<le> w2" using dx s2 unfolding w1_def w2_def
      by (simp add: mult_left_mono)
    have "h1 * w1 \<le> h2 * w2"
      using h1pos w1pos hle wle by (simp add: mult_mono)
    then show ?thesis by (simp only: a1 a2)
  qed
  have pt: "global_area (x, y, x, y) f = (y - 1 / 100, x - 1 / 100, y + 1 / 100, x + 1 / 100)"
    by (simp add: Let_def)
  have ar: "envelope_area (global_area (x, y, x, y) f) = 4 / 10000"
    by (simp add: Let_def)
  show ?thesis using le pt ar by blast
qed

theorem global_area_monotone_witness:
  "envelope_area (global_area (0, 0, 1, 2) 0) \<le> envelope_area (global_area (0, 0, 1, 2) 1)
   \<and> global_area (3, 4, 3, 4) (- 7) = (399 / 100, 299 / 100, 401 / 100, 301 / 100)"
  using global_area_monotone [of 0 1 0 2 0 1 3 4 "- 7"] by simp

theorem global_area_strict_counterexample:
  "\<not> envelope_area (global_area (0, 0, 0, 0) 0) < envelope_area (global_area (0, 0, 0, 0) 1)
   \<and> \<not> envelope_area (global_area (0, 0, 1, 1) (- 2))
         \<le> envelope_area (global_area (0, 0, 1, 1) (- 1))"
  by (simp add: Let_def)

section \<open>Corridor: properties\<close>

lemma create_buffer_success:
  assumes "line_string W (p0 # ps) = Inr seg"
    and "transformer W EPSG4326 (UTM (py_int ((fst p0 + 180) / 6) + 1)) = Inr t1"
    and "transformer W (UTM (py_int ((fst p0 + 180) / 6) + 1)) EPSG4326 = Inr t2"
    and "transform W t1 seg = Inr seg_m"
  shows "create_buffer W (p0 # ps) r =
           (case buffer W seg_m r of Inl e \<Rightarrow> Inl e | Inr b \<Rightarrow> transform W t2 b)"
  using assms by (simp add: create_buffer_def Let_def)

lemma create_buffer_failure:
  assumes "create_buffer W gpsx r = Inl e"
  shows "(gpsx = [] \<and> e = IndexError) \<or> line_string W gpsx = Inl e
         \<or> (\<exists>a c. transformer W a c = Inl e) \<or> (\<exists>t g. transform W t g = Inl e)
         \<or> (\<exists>g. buffer W g r = Inl e)"
proof (cases "line_string W gpsx")
  case (Inl e')
  with assms show ?thesis by (simp add: create_buffer_def)
next
  case seg: (Inr seg)
  show ?thesis
  proof (cases gpsx)
    case Nil
    with assms seg show ?thesis by (simp add: create_buffer_def)
  next
    case (Cons p0 ps)
    define z where "z = py_int ((fst p0 + 180) / 6) + 1"
    from assms seg Cons show ?thesis
      unfolding create_buffer_def Let_def z_def [symmetric]
      by (simp split: sum.splits) blast+
  qed
qed

text \<open>
  C4. The claim, that a radius \<open>r \<le> 0\<close> makes \<open>create_buffer\<close> fail with an
  InvalidParameter error, does not hold: the code has no check of the radius. What
  holds: with \<open>r \<le> 0\<close> the radius goes unchanged to the library's buffer operation, and
  when the library calls succeed the result is the back-projection of what that operation
  returns; a failure of \<open>create_buffer\<close> is the IndexError of an empty trace or an error
  raised inside one of the library calls, never an error of its own about the radius.
\<close>

theorem create_buffer_radius_unchecked:
  assumes "r \<le> 0"
  shows "(line_string W (p0 # ps) = Inr seg
          \<and> transformer W EPSG4326 (UTM (py_int ((fst p0 + 180) / 6) + 1)) = Inr t1
          \<and> transformer W (UTM (py_int ((fst p0 + 180) / 6) + 1)) EPSG4326 = Inr t2
          \<and> transform W t1 seg = Inr seg_m \<and> buffer W seg_m r = Inr b
          \<longrightarrow> create_buffer W (p0 # ps) r = transform W t2 b)
         \<and> (create_buffer W gpsx r = Inl e
          \<longrightarrow> (gpsx = [] \<and> e = IndexError) \<or> line_string W gpsx = Inl e
              \<or> (\<exists>a c. transformer W a c = Inl e) \<or> (\<exists>t g. transform W t g = Inl e)
              \<or> (\<exists>g. buffer W g r = Inl e))"
proof
  show "line_string W (p0 # ps) = Inr seg
          \<and> transformer W EPSG4326 (UTM (py_int ((fst p0 + 180) / 6) + 1)) = Inr t1
          \<and> transformer W (UTM (py_int ((fst p0 + 180) / 6) + 1)) EPSG4326 = Inr t2
          \<and> transform W t1 seg = Inr seg_m \<and> buffer W seg_m r = Inr b
          \<longrightarrow> create_buffer W (p0 # ps) r = transform W t2 b"
    by (auto simp: create_buffer_success)
next
  show "create_buffer W gpsx r = Inl e
          \<longrightarrow> (gpsx = [] \<and> e = IndexError) \<or> line_string W gpsx = Inl e
              \<or> (\<exists>a c. transformer W a c = Inl e) \<or> (\<exists>t g. transform W t g = Inl e)
              \<or> (\<exists>g. buffer W g r = Inl e)"
    using create_buffer_failure [of W gpsx r e] by blast
qed

theorem create_buffer_radius_unchecked_witness:
  "create_buffer scenario_world [(- 8019 / 100, 2576 / 100), (- 8020 / 100, 2580 / 100)] (- 5) =
     Inr (Transformed (UTM 17) EPSG4326
            (Buffered (Transformed EPSG4326 (UTM 17)
               (Line [(- 8019 / 100, 2576 / 100), (- 8020 / 100, 2580 / 100)])) (- 5)))"
proof -
  have r: "(- 5 :: real) \<le> 0" by simp
  show ?thesis
    using create_buffer_radius_unchecked [OF r, of scenario_world "(- 8019 / 100, 2576 / 100)"
        "[(- 8020 / 100, 2580 / 100)]"
        "Line [(- 8019 / 100, 2576 / 100), (- 8020 / 100, 2580 / 100)]"
        "(EPSG4326, UTM 17)" "(UTM 17, EPSG4326)"
        "Transformed EPSG4326 (UTM 17)
           (Line [(- 8019 / 100, 2576 / 100), (- 8020 / 100, 2580 / 100)])"
        "Buffered (Transformed EPSG4326 (UTM 17)
           (Line [(- 8019 / 100, 2576 / 100), (- 8020 / 100, 2580 / 100)])) (- 5)"]
    by (simp add: scenario_world_def py_int_def)
qed

theorem create_buffer_radius_counterexample:
  "create_buffer scenario_world [(- 8019 / 100, 2576 / 100), (- 8020 / 100, 2580 / 100)] 0 =
     Inr (Transformed (UTM 17) EPSG4326
            (Buffered (Transformed EPSG4326 (UTM 17)
               (Line [(- 8019 / 100, 2576 / 100), (- 8020 / 100, 2580 / 100)])) 0))"
  by (simp add: create_buffer_def scenario_world_def py_int_def Let_def)

text \<open>
  C5. The claim, that a trace whose points all coincide makes \<open>create_buffer\<close> fail with
  a DegenerateGeometry error, does not hold: the code does not compare the points of the
  trace. What holds: for a non-empty trace whose points all equal \<open>p\<close>, the line is built
  from the points as given, in the UTM zone of \<open>p\<close>, and when the library calls succeed
  the result is the back-projection of the library's buffer of that line.
\<close>

theorem create_buffer_coincident_points:
  assumes "gpsx \<noteq> []" and "\<forall>q \<in> set gpsx. q = p"
    and "line_string W gpsx = Inr seg"
    and "transformer W EPSG4326 (UTM (py_int ((fst p + 180) / 6) + 1)) = Inr t1"
    and "transformer W (UTM (py_int ((fst p + 180) / 6) + 1)) EPSG4326 = Inr t2"
    and "transform W t1 seg = Inr seg_m" and "buffer W seg_m r = Inr b"
  shows "create_buffer W gpsx r = transform W t2 b"
proof -
  from assms(1,2) obtain ps where g: "gpsx = p # ps" by (cases gpsx) auto
  show ?thesis
    using assms(3-7) unfolding g by (simp add: create_buffer_success)
qed

theorem create_buffer_coincident_points_witness:
  "create_buffer scenario_world
     [(- 8019 / 100, 2576 / 100), (- 8019 / 100, 2576 / 100), (- 8019 / 100, 2576 / 100)] 250 =
     Inr (Transformed (UTM 17) EPSG4326
            (Buffered (Transformed EPSG4326 (UTM 17)
               (Line [(- 8019 / 100, 2576 / 100), (- 8019 / 100, 2576 / 100),
                      (- 8019 / 100, 2576 / 100)])) 250))"
  using create_buffer_coincident_points [of
      "[(- 8019 / 100, 2576 / 100), (- 8019 / 100, 2576 / 100), (- 8019 / 100, 2576 / 100)]"
      "(- 8019 / 100, 2576 / 100)" scenario_world
      "Line [(- 8019 / 100, 2576 / 100), (- 8019 / 100, 2576 / 100),
             (- 8019 / 100, 2576 / 100)]"
      "(EPSG4326, UTM 17)" "(UTM 17, EPSG4326)"
      "Transformed EPSG4326 (UTM 17)
         (Line [(- 8019 / 100, 2576 / 100), (- 8019 / 100, 2576 / 100),
                (- 8019 / 100, 2576 / 100)])" 250
      "Buffered (Transformed EPSG4326 (UTM 17)
         (Line [(- 8019 / 100, 2576 / 100), (- 8019 / 100, 2576 / 100),
                (- 8019 / 100, 2576 / 100)])) 250"]
  by (simp add: scenario_world_def py_int_def)

theorem create_buffer_coincident_counterexample:
  "create_buffer scenario_world [(- 8019 / 100, 2576 / 100), (- 8019 / 100, 2576 / 100)] 500 =
     Inr (Transformed (UTM 17) EPSG4326
            (Buffered (Transformed EPSG4326 (UTM 17)
               (Line [(- 8019 / 100, 2576 / 100), (- 8019 / 100, 2576 / 100)])) 500))"
  by (simp add: create_buffer_def scenario_world_def py_int_def Let_def)

section \<open>Deduplication: properties\<close>

lemma first_occurrences_Nil: "first_occurrences k [] = []"
  by (simp add: first_occurrences_def)

lemma first_occurrences_snoc:
  "first_occurrences k (rs @ [x]) =
     first_occurrences k rs @ (if k x \<in> k ` set rs then [] else [x])"
proof -
  have old: "map (\<lambda>i. (rs @ [x]) ! i)
               (filter (\<lambda>i. \<forall>j<i. k ((rs @ [x]) ! j) \<noteq> k ((rs @ [x]) ! i)) [0..<length rs])
             = first_occurrences k rs"
    unfolding first_occurrences_def
  proof (rule map_cong)
    show "filter (\<lambda>i. \<forall>j<i. k ((rs @ [x]) ! j) \<noteq> k ((rs @ [x]) ! i)) [0..<length rs]
          = filter (\<lambda>i. \<forall>j<i. k (rs ! j) \<noteq> k (rs ! i)) [0..<length rs]"
      by (rule filter_cong) (auto simp: nth_append)
  next
    fix i assume "i \<in> set (filter (\<lambda>i. \<forall>j<i. k (rs ! j) \<noteq> k (rs ! i)) [0..<length rs])"
    then show "(rs @ [x]) ! i = rs ! i" by (simp add: nth_append)
  qed
  have new: "(\<forall>j<length rs. k ((rs @ [x]) ! j) \<noteq> k ((rs @ [x]) ! length rs))
             \<longleftrightarrow> k x \<notin> k ` set rs"
  proof
    assume a: "\<forall>j<length rs. k ((rs @ [x]) ! j) \<noteq> k ((rs @ [x]) ! length rs)"
    show "k x \<notin> k ` set rs"
    proof
      assume "k x \<in> k ` set rs"
      then obtain j where "j < length rs" and "k (rs ! j) = k x"
        by (auto simp: in_set_conv_nth)
      with a show False by (simp add: nth_append)
    qed
  next
    assume "k x \<notin> k ` set rs"
    then have "k (rs ! j) \<noteq> k x" if "j < length rs" for j
      using that by (metis imageI nth_mem)
    then show "\<forall>j<length rs. k ((rs @ [x]) ! j) \<noteq> k ((rs @ [x]) ! length rs)"
      by (simp add: nth_append)
  qed
  have "first_occurrences k (rs @ [x]) =
          map (\<lambda>i. (rs @ [x]) ! i)
            (filter (\<lambda>i. \<forall>j<i. k ((rs @ [x]) ! j) \<noteq> k ((rs @ [x]) ! i)) [0..<length rs])
          @ (if k x \<in> k ` set rs then [] else [x])"
    unfolding first_occurrences_def using new by simp
  then show ?thesis by (simp only: old)
qed

lemma first_occurrences_keys: "k ` set (first_occurrences k rs) = k ` set rs"
  by (induction rs rule: rev_induct) (auto simp: first_occurrences_Nil first_occurrences_snoc)

lemma first_occurrences_distinct: "distinct (map k (first_occurrences k rs))"
proof (induction rs rule: rev_induct)
  case Nil
  then show ?case by (simp add: first_occurrences_Nil)
next
  case (snoc x xs)
  have "k x \<notin> k ` set (first_occurrences k xs)" if "k x \<notin> k ` set xs"
    using that by (simp only: first_occurrences_keys not_False_eq_True)
  with snoc show ?case by (simp add: first_occurrences_snoc)
qed

lemma first_occurrences_subseq: "subseq (first_occurrences k rs) rs"
proof (induction rs rule: rev_induct)
  case Nil
  then show ?case by (simp add: first_occurrences_Nil)
next
  case (snoc x xs)
  then show ?case by (simp add: first_occurrences_snoc list_emb_append_mono subseq_rev_drop_many)
qed

lemma first_occurrences_fixed:
  "distinct (map k rs) \<Longrightarrow> first_occurrences k rs = rs"
  by (induction rs rule: rev_induct) (auto simp: first_occurrences_Nil first_occurrences_snoc)

text \<open>One more record at the end of the input: the loop appends it unless its key was
  found before.\<close>

lemma dedupe_loop_snoc:
  assumes "\<forall>r \<in> set rs. record_key r = Inr (k r)" and "record_key x = Inr (k x)"
  shows "dedupe_loop found deduped (rs @ [x]) =
           (case dedupe_loop found deduped rs of
              Inl e \<Rightarrow> Inl e
            | Inr out \<Rightarrow> Inr (out @ (if k x \<in> found \<union> k ` set rs then [] else [x])))"
  using assms
proof (induction rs arbitrary: found deduped)
  case Nil
  then show ?case by simp
next
  case (Cons r rs)
  then have kr: "record_key r = Inr (k r)" and rest: "\<forall>r \<in> set rs. record_key r = Inr (k r)"
    by simp_all
  show ?case
  proof (cases "k r \<in> found")
    case True
    then have "found \<union> k ` set (r # rs) = found \<union> k ` set rs" by auto
    with True kr Cons.IH [OF rest Cons.prems(2), of found deduped] show ?thesis by simp
  next
    case False
    have "insert (k r) found \<union> k ` set rs = found \<union> k ` set (r # rs)" by auto
    with False kr Cons.IH [OF rest Cons.prems(2), of "insert (k r) found" "deduped @ [r]"]
    show ?thesis by simp
  qed
qed

lemma dedupe_first_occurrences:
  "\<forall>r \<in> set rs. record_key r = Inr (k r) \<Longrightarrow> dedupe rs = Inr (first_occurrences k rs)"
proof (induction rs rule: rev_induct)
  case Nil
  then show ?case by (simp add: dedupe_def first_occurrences_Nil)
next
  case (snoc x xs)
  then have xs: "\<forall>r \<in> set xs. record_key r = Inr (k r)" and x: "record_key x = Inr (k x)"
    by simp_all
  have "dedupe_loop {} [] xs = Inr (first_occurrences k xs)"
    using snoc.IH [OF xs] by (simp add: dedupe_def)
  then show ?case
    unfolding dedupe_def by (simp add: dedupe_loop_snoc [OF xs x] first_occurrences_snoc)
qed

lemma dedupe_loop_keyed:
  "dedupe_loop found deduped rs = Inr out \<Longrightarrow> \<forall>r \<in> set rs. \<exists>key. record_key r = Inr key"
  by (induction rs arbitrary: found deduped) (auto split: sum.splits if_splits)

lemma dedupe_loop_subset:
  "dedupe_loop found deduped rs = Inr out \<Longrightarrow> set out \<subseteq> set deduped \<union> set rs"
proof (induction rs arbitrary: found deduped)
  case Nil
  then show ?case by simp
next
  case (Cons r rs)
  then show ?case by (fastforce split: sum.splits if_splits)
qed

text \<open>The key: rounding is to the nearest multiple, which is unique.\<close>

lemma round_half_even_nearest:
  "\<bar>s - of_int (round_half_even s)\<bar> \<le> 1 / 2
   \<and> (\<bar>s - of_int (round_half_even s)\<bar> = 1 / 2 \<longrightarrow> even (round_half_even s))"
proof -
  define f where "f = \<lfloor>s\<rfloor>"
  define d where "d = s - of_int f"
  have d0: "0 \<le> d" and d1: "d < 1"
    unfolding d_def f_def by linarith+
  have s: "s = of_int f + d" by (simp add: d_def)
  have rhe: "round_half_even s =
      (if d < 1 / 2 then f else if 1 / 2 < d then f + 1 else if even f then f else f + 1)"
    by (simp only: round_half_even_def Let_def f_def d_def)
  consider "d < 1 / 2" | "1 / 2 < d" | "d = 1 / 2" "even f" | "d = 1 / 2" "odd f"
    by fastforce
  then show ?thesis
  proof cases
    case 1
    then have "round_half_even s = f" by (simp only: rhe if_True)
    moreover have "\<bar>s - of_int f\<bar> < 1 / 2" using 1 d0 s by linarith
    ultimately show ?thesis by simp
  next
    case 2
    then have "\<not> d < 1 / 2" by simp
    with 2 have "round_half_even s = f + 1" by (simp only: rhe if_True if_False)
    moreover have "\<bar>s - of_int (f + 1)\<bar> < 1 / 2" using 2 d1 s by simp
    ultimately show ?thesis by simp
  next
    case 3
    then have "round_half_even s = f" by (simp add: rhe)
    moreover have "\<bar>s - of_int f\<bar> = 1 / 2" using 3 s by simp
    ultimately show ?thesis using 3 by simp
  next
    case 4
    then have r: "round_half_even s = f + 1" by (simp add: rhe)
    have "\<bar>s - of_int (f + 1)\<bar> = 1 / 2" using 4 s by simp
    with r 4 show ?thesis by simp
  qed
qed

lemma py_round_rounded_to: "rounded_to n x (py_round x n)"
proof -
  have c: "py_round x n * 10 ^ n = of_int (round_half_even (x * 10 ^ n))"
    by (simp add: py_round_def)
  show ?thesis
    unfolding rounded_to_def Let_def c floor_of_int
    using round_half_even_nearest [of "x * 10 ^ n"] by simp
qed

lemma rounded_to_unique:
  assumes "rounded_to n x c" and "rounded_to n x c'"
  shows "c = c'"
proof -
  define s where "s = x * 10 ^ n"
  define m where "m = \<lfloor>c * 10 ^ n\<rfloor>"
  define m' where "m' = \<lfloor>c' * 10 ^ n\<rfloor>"
  from assms(1) have "c * 10 ^ n = of_int m \<and> \<bar>s - of_int m\<bar> \<le> 1 / 2
      \<and> (\<bar>s - of_int m\<bar> = 1 / 2 \<longrightarrow> even m)"
    unfolding rounded_to_def Let_def s_def m_def .
  then have c: "c * 10 ^ n = of_int m" and a: "\<bar>s - of_int m\<bar> \<le> 1 / 2"
    and e: "\<bar>s - of_int m\<bar> = 1 / 2 \<longrightarrow> even m"
    by blast+
  from assms(2) have "c' * 10 ^ n = of_int m' \<and> \<bar>s - of_int m'\<bar> \<le> 1 / 2
      \<and> (\<bar>s - of_int m'\<bar> = 1 / 2 \<longrightarrow> even m')"
    unfolding rounded_to_def Let_def s_def m'_def .
  then have c': "c' * 10 ^ n = of_int m'" and a': "\<bar>s - of_int m'\<bar> \<le> 1 / 2"
    and e': "\<bar>s - of_int m'\<bar> = 1 / 2 \<longrightarrow> even m'"
    by blast+
  have "m = m'"
  proof (rule ccontr)
    assume ne: "m \<noteq> m'"
    have "\<bar>(of_int m :: real) - of_int m'\<bar> \<le> 1" using a a' by linarith
    then have "\<bar>m - m'\<bar> \<le> 1" by linarith
    with ne have d: "m' = m + 1 \<or> m = m' + 1" by linarith
    then have "\<bar>s - of_int m\<bar> = 1 / 2 \<and> \<bar>s - of_int m'\<bar> = 1 / 2"
      using a a' by (auto simp: abs_if split: if_splits)
    with e e' have "even m" and "even m'" by simp_all
    with d show False by auto
  qed
  with c c' have "c * 10 ^ n = c' * 10 ^ n" by simp
  then show ?thesis by simp
qed

lemma record_key_fields:
  assumes "get r ''placename'' = Some name" and "get r ''latitude'' = Some (Num x)"
    and "get r ''longitude'' = Some (Num y)"
  shows "record_key r = Inr (name, py_round x 6, py_round y 6)"
  using assms by (simp add: record_key_def getitem_def get_def)

text \<open>
  C6. For every sequence of records that each have a \<^verbatim>\<open>placename\<close> and a numeric
  \<^verbatim>\<open>latitude\<close> and \<^verbatim>\<open>longitude\<close>, the deduplication returns, and what it returns is
  the sequence of first occurrences: a subsequence of the input, in which no two records
  share a key, and in which every key of the input is borne by one record, the first of
  the input that bears it. The key of a record is its \<^verbatim>\<open>placename\<close> with its latitude
  and its longitude rounded to 6 decimal places.
\<close>

theorem dedupe_first_wins:
  assumes "\<forall>r \<in> set rs. \<exists>name x y. get r ''placename'' = Some name
             \<and> get r ''latitude'' = Some (Num x) \<and> get r ''longitude'' = Some (Num y)"
  shows "dedupe rs = Inr (first_occurrences placement_key rs)
         \<and> subseq (first_occurrences placement_key rs) rs
         \<and> distinct (map placement_key (first_occurrences placement_key rs))
         \<and> placement_key ` set (first_occurrences placement_key rs) = placement_key ` set rs
         \<and> (\<forall>r \<in> set rs. \<forall>name x y. get r ''placename'' = Some name
               \<and> get r ''latitude'' = Some (Num x) \<and> get r ''longitude'' = Some (Num y)
               \<longrightarrow> (\<exists>cx cy. placement_key r = (name, cx, cy)
                      \<and> rounded_to 6 x cx \<and> rounded_to 6 y cy))"
proof -
  have keyed: "\<forall>r \<in> set rs. record_key r = Inr (placement_key r)"
  proof
    fix r assume "r \<in> set rs"
    with assms obtain name x y where "get r ''placename'' = Some name"
      and "get r ''latitude'' = Some (Num x)" and "get r ''longitude'' = Some (Num y)"
      by blast
    then show "record_key r = Inr (placement_key r)"
      by (simp add: placement_key_def record_key_fields)
  qed
  have spec: "\<exists>cx cy. placement_key r = (name, cx, cy) \<and> rounded_to 6 x cx \<and> rounded_to 6 y cy"
    if "get r ''placename'' = Some name \<and> get r ''latitude'' = Some (Num x)
        \<and> get r ''longitude'' = Some (Num y)" for r name x y
    using that by (simp add: placement_key_def record_key_fields py_round_rounded_to)
  show ?thesis
    using dedupe_first_occurrences [OF keyed] first_occurrences_subseq [of placement_key rs]
      first_occurrences_distinct [of placement_key rs]
      first_occurrences_keys [of placement_key rs] spec
    by blast
qed

theorem dedupe_first_wins_witness:
  "dedupe
     [[(''placename'', Str ''Miami''), (''latitude'', Num (257742000 / 10000000)),
       (''longitude'', Num (- 801939 / 10000))],
      [(''placename'', Str ''Doral''), (''latitude'', Num (2582 / 100)),
       (''longitude'', Num (- 8035 / 100))],
      [(''placename'', Str ''Miami''), (''latitude'', Num (257742004 / 10000000)),
       (''longitude'', Num (- 801939 / 10000)), (''placetag'', Str ''city'')],
      [(''placename'', Str ''Miami''), (''latitude'', Num (257742000 / 10000000)),
       (''longitude'', Num (- 802000 / 10000))],
      [(''placename'', Str ''Miami''), (''latitude'', Num (25774201 / 1000000)),
       (''longitude'', Num (- 801939 / 10000))],
      [(''placename'', Str ''Miami''), (''latitude'', Num (257741996 / 10000000)),
       (''longitude'', Num (- 801939 / 10000))]]
   = Inr
     [[(''placename'', Str ''Miami''), (''latitude'', Num (257742000 / 10000000)),
       (''longitude'', Num (- 801939 / 10000))],
      [(''placename'', Str ''Doral''), (''latitude'', Num (2582 / 100)),
       (''longitude'', Num (- 8035 / 100))],
      [(''placename'', Str ''Miami''), (''latitude'', Num (257742000 / 10000000)),
       (''longitude'', Num (- 802000 / 10000))],
      [(''placename'', Str ''Miami''), (''latitude'', Num (25774201 / 1000000)),
       (''longitude'', Num (- 801939 / 10000))]]
   \<and> placement_key
        [(''placename'', Str ''Miami''), (''latitude'', Num (257742004 / 10000000)),
         (''longitude'', Num (- 801939 / 10000)), (''placetag'', Str ''city'')]
      = (Str ''Miami'', 257742 / 10000, - 801939 / 10000)
   \<and> rounded_to 6 (257742004 / 10000000) (257742 / 10000)"
proof -
  let ?a = "[(''placename'', Str ''Miami''), (''latitude'', Num (257742000 / 10000000)),
       (''longitude'', Num (- 801939 / 10000))]"
  let ?b = "[(''placename'', Str ''Doral''), (''latitude'', Num (2582 / 100)),
       (''longitude'', Num (- 8035 / 100))]"
  let ?c = "[(''placename'', Str ''Miami''), (''latitude'', Num (257742004 / 10000000)),
       (''longitude'', Num (- 801939 / 10000)), (''placetag'', Str ''city'')]"
  let ?d = "[(''placename'', Str ''Miami''), (''latitude'', Num (257742000 / 10000000)),
       (''longitude'', Num (- 802000 / 10000))]"
  let ?e = "[(''placename'', Str ''Miami''), (''latitude'', Num (25774201 / 1000000)),
       (''longitude'', Num (- 801939 / 10000))]"
  let ?f = "[(''placename'', Str ''Miami''), (''latitude'', Num (257741996 / 10000000)),
       (''longitude'', Num (- 801939 / 10000))]"
  let ?rs = "[?a, ?b, ?c, ?d, ?e, ?f]"
  define keyed where "keyed = (\<lambda>r :: pyval pydict. \<exists>name x y. get r ''placename'' = Some name
             \<and> get r ''latitude'' = Some (Num x) \<and> get r ''longitude'' = Some (Num y))"
  have k: "keyed r" if "get r ''placename'' = Some n \<and> get r ''latitude'' = Some (Num u)
      \<and> get r ''longitude'' = Some (Num v)" for r n u v
    unfolding keyed_def using that by blast
  have "keyed ?a"
    by (rule k [of _ "Str ''Miami''" "257742000 / 10000000" "- 801939 / 10000"])
      (simp add: get_def)
  moreover have "keyed ?b"
    by (rule k [of _ "Str ''Doral''" "2582 / 100" "- 8035 / 100"]) (simp add: get_def)
  moreover have "keyed ?c"
    by (rule k [of _ "Str ''Miami''" "257742004 / 10000000" "- 801939 / 10000"])
      (simp add: get_def)
  moreover have "keyed ?d"
    by (rule k [of _ "Str ''Miami''" "257742000 / 10000000" "- 802000 / 10000"])
      (simp add: get_def)
  moreover have "keyed ?e"
    by (rule k [of _ "Str ''Miami''" "25774201 / 1000000" "- 801939 / 10000"])
      (simp add: get_def)
  moreover have "keyed ?f"
    by (rule k [of _ "Str ''Miami''" "257741996 / 10000000" "- 801939 / 10000"])
      (simp add: get_def)
  ultimately have "\<forall>r \<in> set ?rs. keyed r" by simp
  then have wf: "\<forall>r \<in> set ?rs. \<exists>name x y. get r ''placename'' = Some name
             \<and> get r ''latitude'' = Some (Num x) \<and> get r ''longitude'' = Some (Num y)"
    unfolding keyed_def .
  note fw = dedupe_first_wins [OF wf]
  have run: "dedupe ?rs = Inr (first_occurrences placement_key ?rs)"
    using fw by (rule conjunct1)
  have kc: "placement_key ?c = (Str ''Miami'', 257742 / 10000, - 801939 / 10000)"
    by (simp add: placement_key_def record_key_def getitem_def py_round_def
        round_half_even_def Let_def)
  have "\<exists>cx cy. placement_key ?c = (Str ''Miami'', cx, cy)
          \<and> rounded_to 6 (257742004 / 10000000) cx \<and> rounded_to 6 (- 801939 / 10000) cy"
  proof -
    have "?c \<in> set ?rs" by simp
    moreover have "get ?c ''placename'' = Some (Str ''Miami'')
        \<and> get ?c ''latitude'' = Some (Num (257742004 / 10000000))
        \<and> get ?c ''longitude'' = Some (Num (- 801939 / 10000))"
      by (simp add: get_def)
    ultimately show ?thesis using fw by blast
  qed
  then obtain cx cy where pk: "placement_key ?c = (Str ''Miami'', cx, cy)"
    and rx: "rounded_to 6 (257742004 / 10000000) cx"
    by blast
  from pk kc have "cx = 257742 / 10000" by (simp only: prod.inject)
  with rx have rd: "rounded_to 6 (257742004 / 10000000) (257742 / 10000)" by (simp only:)
  have ev: "dedupe ?rs = Inr [?a, ?b, ?d, ?e]"
    by (simp add: dedupe_def record_key_def getitem_def py_round_def round_half_even_def Let_def)
  show ?thesis using ev kc rd by blast
qed

text \<open>
  C7. Deduplicating twice gives what deduplicating once gives: an error of the first
  pass is the result, and otherwise the second pass returns the output of the first.
\<close>

theorem dedupe_idempotent:
  "(case dedupe rs of Inl e \<Rightarrow> Inl e | Inr out \<Rightarrow> dedupe out) = dedupe rs"
proof (cases "dedupe rs")
  case (Inl e)
  then show ?thesis by simp
next
  case (Inr out)
  define k where "k = (\<lambda>r. projr (record_key r))"
  have keyed: "\<forall>r \<in> set rs. record_key r = Inr (k r)"
    using dedupe_loop_keyed [of "{}" "[]" rs out] Inr
    by (fastforce simp: dedupe_def k_def)
  have out: "out = first_occurrences k rs"
    using dedupe_first_occurrences [OF keyed] Inr by simp
  have "set out \<subseteq> set rs"
    using dedupe_loop_subset [of "{}" "[]" rs out] Inr by (simp add: dedupe_def)
  with keyed have keyed': "\<forall>r \<in> set out. record_key r = Inr (k r)" by blast
  have "dedupe out = Inr (first_occurrences k out)"
    by (rule dedupe_first_occurrences [OF keyed'])
  also have "first_occurrences k out = out"
    unfolding out by (rule first_occurrences_fixed) (rule first_occurrences_distinct)
  finally show ?thesis using Inr by simp
qed

section \<open>The search: properties\<close>

text \<open>Every record the loop adds is the dictionary literal, filled from a candidate
  that \<open>chosen_area\<close> returned.\<close>

lemma collect_records:
  "collect W rn g es acc = Inr out \<Longrightarrow>
     \<forall>r \<in> set out. r \<in> set acc \<or>
       (\<exists>e \<in> set es. \<exists>pl st co. chosen_area e = Some pl \<and> r = result_dict rn pl st co)"
proof (induction es arbitrary: acc)
  case Nil
  then show ?case by simp
next
  case (Cons e es)
  show ?case
  proof (cases "chosen_area e")
    case None
    with Cons.prems have "collect W rn g es acc = Inr out" by simp
    from Cons.IH [OF this] show ?thesis by auto
  next
    case (Some pl)
    show ?thesis
    proof (cases "point_within W (longitude pl) (latitude pl) g")
      case (Inl err)
      with Some Cons.prems show ?thesis by simp
    next
      case (Inr ok)
      show ?thesis
      proof (cases ok)
        case False
        with Some Inr Cons.prems have "collect W rn g es acc = Inr out" by simp
        from Cons.IH [OF this] show ?thesis by auto
      next
        case True
        show ?thesis
        proof (cases "set_state_country W (latitude pl) (longitude pl)")
          case (Inl err)
          with Some Inr True Cons.prems show ?thesis by simp
        next
          case sc: (Inr p)
          obtain st co where p: "p = (st, co)" by (cases p)
          from Some Inr True sc p Cons.prems
          have "collect W rn g es (acc @ [result_dict rn pl st co]) = Inr out" by simp
          from Cons.IH [OF this] Some show ?thesis by auto
        qed
      qed
    qed
  qed
qed

lemma road_search_records:
  assumes "road_search W rn city st b = Inr out" and "r \<in> set out"
  shows "\<exists>e pl s c. chosen_area e = Some pl \<and> r = result_dict rn pl s c"
proof -
  from assms(1) obtain g es results where
    c: "collect W rn g es [] = Inr results" and d: "dedupe results = Inr out"
    by (auto simp: road_search_def Let_def split: sum.splits if_splits)
  from d have "set out \<subseteq> set results"
    using dedupe_loop_subset [of "{}" "[]" results out] by (simp add: dedupe_def)
  with assms(2) have "r \<in> set results" by blast
  with collect_records [OF c] show ?thesis by fastforce
qed

lemma scenario_run:
  "road_search scenario_world ''I 95'' ''Miami'' ''Florida'' 500 =
     Inr [[(''roadway'', Str ''I 95''), (''placename'', Str ''Miami''),
           (''placename_ascii'', Str ''Miami''), (''placename_en'', Str ''Miami''),
           (''placetag'', Str ''city''), (''latitude'', Num (128871 / 5000)),
           (''longitude'', Num (- (801939 / 10000))), (''state/province'', Str ''Florida''),
           (''state/province-ascii'', Str ''Florida''), (''country'', Str ''United States'')],
          [(''roadway'', Str ''I 95''), (''placename'', Str ''Allapattah''),
           (''placename_ascii'', Str ''Allapattah''), (''placename_en'', Str ''Allapattah''),
           (''placetag'', Str ''town''), (''latitude'', Num (1289 / 50)),
           (''longitude'', Num (- (16039 / 200))), (''state/province'', Str ''Florida''),
           (''state/province-ascii'', Str ''Florida''), (''country'', Str ''United States'')]]"
  by (simp add: road_search_def set_city_def scenario_world_def create_buffer_def py_int_def
      Let_def scenario_elements_def chosen_area_def get_def py_or_def set_state_country_def
      result_dict_def dedupe_def record_key_def getitem_def py_round_def round_half_even_def)

text \<open>
  C3. The claim is that every emitted record has exactly the nine keys \<^verbatim>\<open>roadway\<close>,
  \<^verbatim>\<open>placename\<close>, \<^verbatim>\<open>placename_ascii\<close>, \<^verbatim>\<open>placename_en\<close>, \<^verbatim>\<open>placetag\<close>,
  \<^verbatim>\<open>latitude\<close>, \<^verbatim>\<open>longitude\<close>, \<^verbatim>\<open>state/province\<close> and \<^verbatim>\<open>country\<close>, the elements
  the module's own docstring lists for the output. On the scripted run the search returns
  two records, and each has ten keys: the nine and \<^verbatim>\<open>state/province-ascii\<close>.
\<close>

theorem road_search_keys_extra:
  "map_sum id (map keys) (road_search scenario_world ''I 95'' ''Miami'' ''Florida'' 500) =
     Inr [[''roadway'', ''placename'', ''placename_ascii'', ''placename_en'', ''placetag'',
           ''latitude'', ''longitude'', ''state/province'', ''state/province-ascii'', ''country''],
          [''roadway'', ''placename'', ''placename_ascii'', ''placename_en'', ''placetag'',
           ''latitude'', ''longitude'', ''state/province'', ''state/province-ascii'', ''country'']]"
  by (simp add: scenario_run keys_def)

text \<open>
  C10. For an element with a position (a node, or an element with a non-empty centre)
  whose tags have no \<^verbatim>\<open>place\<close> entry, \<open>chosen_area\<close> returns a candidate whose
  \<open>placetag\<close> is \<^verbatim>\<open>town\<close>; and in every record the search returns, \<^verbatim>\<open>placetag\<close> is
  present and holds a string.
\<close>

theorem chosen_area_placetag_default:
  "((etype e = ''node'' \<or> (\<exists>c. center e = Some c \<and> c \<noteq> []))
      \<and> (\<forall>t. tags e = Some t \<longrightarrow> get t ''place'' = None)
      \<longrightarrow> (\<exists>pl. chosen_area e = Some pl \<and> placetag pl = ''town''))
   \<and> (road_search W rn city st b = Inr out \<and> r \<in> set out
      \<longrightarrow> (\<exists>s. get r ''placetag'' = Some (Str s)))"
proof
  show "(etype e = ''node'' \<or> (\<exists>c. center e = Some c \<and> c \<noteq> []))
      \<and> (\<forall>t. tags e = Some t \<longrightarrow> get t ''place'' = None)
      \<longrightarrow> (\<exists>pl. chosen_area e = Some pl \<and> placetag pl = ''town'')"
    by (cases "tags e") (auto simp: chosen_area_def Let_def get_def)
next
  show "road_search W rn city st b = Inr out \<and> r \<in> set out
      \<longrightarrow> (\<exists>s. get r ''placetag'' = Some (Str s))"
  proof
    assume a: "road_search W rn city st b = Inr out \<and> r \<in> set out"
    then obtain pl s c where "r = result_dict rn pl s c"
      using road_search_records [of W rn city st b out r] by blast
    then show "\<exists>s. get r ''placetag'' = Some (Str s)"
      by (simp add: result_dict_def get_def)
  qed
qed

theorem chosen_area_placetag_default_witness:
  "(\<exists>pl. chosen_area \<lparr>etype = ''node'', lat = Some (2578 / 100), lon = Some (- 80195 / 1000),
                        center = None, tags = Some [(''name:en'', ''Allapattah'')]\<rparr> = Some pl
         \<and> placetag pl = ''town'')
   \<and> (\<exists>s. get [(''roadway'', Str ''I 95''), (''placename'', Str ''Allapattah''),
           (''placename_ascii'', Str ''Allapattah''), (''placename_en'', Str ''Allapattah''),
           (''placetag'', Str ''town''), (''latitude'', Num (1289 / 50)),
           (''longitude'', Num (- (16039 / 200))), (''state/province'', Str ''Florida''),
           (''state/province-ascii'', Str ''Florida''), (''country'', Str ''United States'')]
          ''placetag'' = Some (Str s))"
proof -
  let ?e = "\<lparr>etype = ''node'', lat = Some (2578 / 100), lon = Some (- 80195 / 1000),
             center = None, tags = Some [(''name:en'', ''Allapattah'')]\<rparr>"
  let ?r = "[(''roadway'', Str ''I 95''), (''placename'', Str ''Allapattah''),
           (''placename_ascii'', Str ''Allapattah''), (''placename_en'', Str ''Allapattah''),
           (''placetag'', Str ''town''), (''latitude'', Num (1289 / 50)),
           (''longitude'', Num (- (16039 / 200))), (''state/province'', Str ''Florida''),
           (''state/province-ascii'', Str ''Florida''), (''country'', Str ''United States'')]"
  let ?out = "[[(''roadway'', Str ''I 95''), (''placename'', Str ''Miami''),
           (''placename_ascii'', Str ''Miami''), (''placename_en'', Str ''Miami''),
           (''placetag'', Str ''city''), (''latitude'', Num (128871 / 5000)),
           (''longitude'', Num (- (801939 / 10000))), (''state/province'', Str ''Florida''),
           (''state/province-ascii'', Str ''Florida''), (''country'', Str ''United States'')],
          ?r]"
  have h1: "(etype ?e = ''node'' \<or> (\<exists>c. center ?e = Some c \<and> c \<noteq> []))
            \<and> (\<forall>t. tags ?e = Some t \<longrightarrow> get t ''place'' = None)"
    by (simp add: get_def)
  have h2: "road_search scenario_world ''I 95'' ''Miami'' ''Florida'' 500 = Inr ?out
            \<and> ?r \<in> set ?out"
    by (simp add: scenario_run)
  from chosen_area_placetag_default
    [of ?e scenario_world "''I 95''" "''Miami''" "''Florida''" 500 ?out ?r] h1 h2
  show ?thesis by blast
qed

end
